theory Spec2Isabelle
  imports Main
begin

section \<open>The ZXing-Wasm decoder adapter (src/src/zxing-wasm-qrcode-decoder.ts)\<close>

text \<open>
  The class \<open>ZXingWasmQrcodeDecoder\<close> is embedded function by function. JavaScript
  strings are \<open>string\<close>, a JavaScript \<open>Map\<close> is an association list in insertion
  order, a \<open>throw\<close> (a rejected promise, inside an \<open>async\<close> function) is the left
  injection of a sum, and every effect on something outside the function (the logger,
  the engine's module overrides, the engine itself, the fields of \<open>this\<close>) is passed
  in and returned explicitly.
\<close>

subsection \<open>JavaScript library operations\<close>

text \<open>\<open>s.endsWith(t)\<close>: \<open>t\<close> is a suffix of \<open>s\<close>.\<close>

definition endsWith :: "string \<Rightarrow> string \<Rightarrow> bool" where
  "endsWith s t = (length t \<le> length s \<and> drop (length s - length t) s = t)"

text \<open>
  A JavaScript \<open>Map\<close>: entries in insertion order, keys distinct. \<open>set\<close> overwrites the
  value of a key that is present (the key keeps its place) and appends a new key;
  \<open>get\<close> of a missing key is \<open>undefined\<close> (\<open>None\<close>); \<open>new Map(entries)\<close> sets the
  entries one after the other; \<open>forEach\<close> visits the entries in insertion order.
\<close>

type_synonym ('k, 'v) js_map = "('k \<times> 'v) list"

fun Map_set :: "'k \<Rightarrow> 'v \<Rightarrow> ('k, 'v) js_map \<Rightarrow> ('k, 'v) js_map" where
  "Map_set k v [] = [(k, v)]"
| "Map_set k v ((k', v') # m) =
     (if k' = k then (k', v) # m else (k', v') # Map_set k v m)"

definition Map_has :: "'k \<Rightarrow> ('k, 'v) js_map \<Rightarrow> bool" where
  "Map_has k m = (k \<in> set (map fst m))"

definition Map_get :: "'k \<Rightarrow> ('k, 'v) js_map \<Rightarrow> 'v option" where
  "Map_get k m = map_of m k"

definition new_Map :: "('k \<times> 'v) list \<Rightarrow> ('k, 'v) js_map" where
  "new_Map entries = fold (\<lambda>(k, v) m. Map_set k v m) entries []"

definition Map_forEach :: "('v \<Rightarrow> 'k \<Rightarrow> 'a \<Rightarrow> 'a) \<Rightarrow> ('k, 'v) js_map \<Rightarrow> 'a \<Rightarrow> 'a" where
  "Map_forEach callback m acc = fold (\<lambda>(k, v) a. callback v k a) m acc"

text \<open>
  What a \<open>throw\<close> or a rejection carries, a JavaScript value: a string (the adapter
  throws bare strings, and a collaborator may throw one too); the \<open>TypeError\<close> of reading
  a property of \<open>undefined\<close> or \<open>null\<close>; \<open>Foreign\<close> is any other value, which only a
  collaborator (the canvas, the engine) throws or rejects with.
\<close>

datatype 'e rejection = Thrown string | TypeError | Foreign 'e

subsection \<open>The host interface (./core) and the engine (zxing-wasm)\<close>

text \<open>
  Modelled from the spec: the declaration of the host enum
  \<open>Html5QrcodeSupportedFormats\<close> lives in \<open>./core\<close>, which is not part of the sources.
  The fourteen members below are the ones the adapter's table names (spec, section 3,
  lists the same fourteen as examples of the kinds); \<open>OTHER_FORMAT n\<close> stands for any
  further member of the host enum, which the table does not mention.
\<close>

datatype Html5QrcodeSupportedFormats =
    QR_CODE | AZTEC | CODABAR | CODE_39 | CODE_93 | CODE_128 | DATA_MATRIX
  | MAXICODE | ITF | EAN_13 | EAN_8 | PDF_417 | UPC_A | UPC_E
  | OTHER_FORMAT nat

text \<open>
  Modelled from the spec: \<open>QrcodeResultFormat.create\<close> lives in \<open>./core\<close>, which is not
  part of the sources. By the spec (section 6) the \<open>format\<close> of a host \<open>Result\<close> is the
  symbology itself, so \<open>create\<close> wraps the enum value it is given.
\<close>

datatype QrcodeResultFormat = QrcodeResultFormat Html5QrcodeSupportedFormats

definition QrcodeResultFormat_create :: "Html5QrcodeSupportedFormats \<Rightarrow> QrcodeResultFormat" where
  "QrcodeResultFormat_create format = QrcodeResultFormat format"

record QrcodeResultDebugData =
  decoderName :: string

record QrcodeResult =
  qr_text :: string
  qr_format :: QrcodeResultFormat
  debugData :: QrcodeResultDebugData

text \<open>
  The engine's \<open>ReadResult\<close> (fields \<open>text\<close> and \<open>format\<close>; the record is extensible, the
  adapter reads no other field) and \<open>DecodeHints\<close>.
\<close>

record ReadResult =
  res_text :: string
  res_format :: string

record DecodeHints =
  tryHarder :: bool
  formats :: "string list"
  maxNumberOfSymbols :: nat

text \<open>
  The canvas: \<open>getContext("2d", ...)\<close> gives a context or \<open>null\<close>; \<open>getImageData\<close> gives the
  pixels or throws some value.
\<close>

record ('e, 'img) CanvasRenderingContext2D =
  getImageData :: "nat \<Rightarrow> nat \<Rightarrow> nat \<Rightarrow> nat \<Rightarrow> 'e rejection + 'img"

record ('e, 'img) HTMLCanvasElement =
  width :: nat
  height :: nat
  getContext :: "('e, 'img) CanvasRenderingContext2D option"

text \<open>
  \<open>readBarcodesFromImageData\<close>: opaque; it takes the pixels and the hints, steps its own
  state \<open>'s\<close>, and settles with a list of results or rejects with some value. The hints
  are handed over by reference: line 103 passes the adapter's own object, which is
  neither copied nor frozen, so the engine may also write to it. The second component of
  what the engine returns is what it did to the contents of that object (the identity
  when it wrote nothing).
\<close>

type_synonym ('e, 'img, 'r, 's) engine =
  "'img \<Rightarrow> DecodeHints option \<Rightarrow> 's \<Rightarrow>
   ('e rejection + 'r ReadResult_scheme list) \<times> (DecodeHints \<Rightarrow> DecodeHints) \<times> 's"

text \<open>
  What lies outside the adapter and is written at construction: the messages given to
  \<open>logger.logError\<close> (oldest first) and the engine's process-wide module overrides (the
  \<open>locateFile\<close> resolver last registered with \<open>setZXingModuleOverrides\<close>).
\<close>

record world =
  logged :: "string list"
  moduleOverrides :: "(string \<Rightarrow> string \<Rightarrow> string) option"

subsection \<open>The class\<close>

text \<open>
  The fields of \<open>this\<close>. A field that has no initializer is \<open>undefined\<close> (\<open>None\<close>) until
  the constructor assigns it.
\<close>

record 'l ZXingWasmQrcodeDecoder =
  formatMap :: "(Html5QrcodeSupportedFormats, string) js_map"
  reverseFormatMap :: "(string, Html5QrcodeSupportedFormats) js_map"
  verbose :: "bool option"
  logger :: "'l option"
  decodeHints :: "DecodeHints option"
  wasmLocationOverride :: "string option"

text \<open>The initializer of the field \<open>formatMap\<close> (lines 33 to 49).\<close>

definition formatMap_init :: "(Html5QrcodeSupportedFormats, string) js_map" where
  "formatMap_init = new_Map
     [ (QR_CODE, ''QRCode''),
       (AZTEC, ''Aztec''),
       (CODABAR, ''Codabar''),
       (CODE_39, ''Code39''),
       (CODE_93, ''Code93''),
       (CODE_128, ''Code128''),
       (DATA_MATRIX, ''DataMatrix''),
       (MAXICODE, ''MaxiCode''),
       (ITF, ''ITF''),
       (EAN_13, ''EAN-13''),
       (EAN_8, ''EAN-8''),
       (PDF_417, ''PDF417''),
       (UPC_A, ''UPC-A''),
       (UPC_E, ''UPC-E'') ]"

text \<open>\<open>createReverseFormatMap\<close> (lines 117 to 124) reads \<open>this.formatMap\<close>.\<close>

definition createReverseFormatMap ::
  "(Html5QrcodeSupportedFormats, string) js_map \<Rightarrow> (string, Html5QrcodeSupportedFormats) js_map" where
  "createReverseFormatMap this_formatMap =
     Map_forEach (\<lambda>value key result. Map_set value key result) this_formatMap []"

text \<open>
  \<open>toHtml5QrcodeSupportedFormats\<close> (lines 126 to 132). The \<open>get\<close> is reached only when
  \<open>has\<close> holds.
\<close>

definition toHtml5QrcodeSupportedFormats ::
  "'l ZXingWasmQrcodeDecoder \<Rightarrow> string \<Rightarrow> 'e rejection + Html5QrcodeSupportedFormats" where
  "toHtml5QrcodeSupportedFormats this zxingFormat =
     (if \<not> Map_has zxingFormat (reverseFormatMap this)
      then Inl (Thrown (''reverseFormatMap doesn't have '' @ zxingFormat))
      else Inr (the (Map_get zxingFormat (reverseFormatMap this))))"

text \<open>
  \<open>createZXingFormats\<close> (lines 134 to 148). The loop carries the array \<open>zxingFormats\<close>
  and the world. \<open>this.logger.logError(...)\<close> reads the field \<open>logger\<close> of \<open>this\<close>: when
  the field is still \<open>undefined\<close> the property access throws a \<open>TypeError\<close> before
  anything is logged. \<open>toString\<close> renders the enum value inside the template string (the
  enum's declaration, and so its numbering, is not part of the sources).
\<close>

fun createZXingFormats_loop ::
  "'l ZXingWasmQrcodeDecoder \<Rightarrow> (Html5QrcodeSupportedFormats \<Rightarrow> string) \<Rightarrow>
   Html5QrcodeSupportedFormats list \<Rightarrow> string list \<Rightarrow> world \<Rightarrow>
   ('e rejection + string list) \<times> world" where
  "createZXingFormats_loop this toString [] zxingFormats w = (Inr zxingFormats, w)"
| "createZXingFormats_loop this toString (requestedFormat # rest) zxingFormats w =
     (if Map_has requestedFormat (formatMap this)
      then createZXingFormats_loop this toString rest
             (zxingFormats @ [the (Map_get requestedFormat (formatMap this))]) w
      else (case logger this of
              None \<Rightarrow> (Inl TypeError, w)
            | Some l \<Rightarrow>
                createZXingFormats_loop this toString rest zxingFormats
                  (w\<lparr>logged := logged w @
                       [toString requestedFormat @ '' is not supported by'' @ ''ZXingWasmQrcodeShim'']\<rparr>)))"

definition createZXingFormats ::
  "'l ZXingWasmQrcodeDecoder \<Rightarrow> (Html5QrcodeSupportedFormats \<Rightarrow> string) \<Rightarrow>
   Html5QrcodeSupportedFormats list \<Rightarrow> world \<Rightarrow> ('e rejection + string list) \<times> world" where
  "createZXingFormats this toString requestedFormats w =
     createZXingFormats_loop this toString requestedFormats [] w"

text \<open>\<open>createDebugData\<close> (lines 150 to 152).\<close>

definition createDebugData :: "'l ZXingWasmQrcodeDecoder \<Rightarrow> QrcodeResultDebugData" where
  "createDebugData this = \<lparr>decoderName = ''zxing-wasm''\<rparr>"

text \<open>
  The resolver of lines 70 to 75. The closure reads \<open>this.wasmLocationOverride\<close> when it
  is called; the field is assigned before the closure is registered and by nothing
  else afterwards, so the closure is given the field's value.
\<close>

definition locateFile :: "string \<Rightarrow> string \<Rightarrow> string \<Rightarrow> string" where
  "locateFile this_wasmLocationOverride path prefix =
     (if endsWith path ''.wasm'' then this_wasmLocationOverride @ path else prefix @ path)"

text \<open>
  The object before the constructor's body runs: the two initialized fields, everything
  else \<open>undefined\<close>.
\<close>

definition fields_init :: "'l ZXingWasmQrcodeDecoder" where
  "fields_init =
     \<lparr> formatMap = formatMap_init,
       reverseFormatMap = createReverseFormatMap formatMap_init,
       verbose = None, logger = None, decodeHints = None, wasmLocationOverride = None \<rparr>"

text \<open>
  Lines 64 to 77 of the constructor: the override path is stored, a separator is
  appended when the path does not end with one, and the resolver is registered.
\<close>

definition constructor_override ::
  "string option \<Rightarrow> 'l ZXingWasmQrcodeDecoder \<times> world \<Rightarrow> 'l ZXingWasmQrcodeDecoder \<times> world" where
  "constructor_override wasmLocationOveride st =
     (case wasmLocationOveride of
        None \<Rightarrow> st
      | Some p \<Rightarrow>
          (let (this, w) = st;
               stored = (if \<not> endsWith p ''/'' then p @ ''/'' else p);
               this' = this\<lparr>wasmLocationOverride := Some stored\<rparr>
           in (this', w\<lparr>moduleOverrides := Some (locateFile stored)\<rparr>)))"

text \<open>
  The constructor (lines 59 to 89). \<open>createZXingFormats\<close> runs at line 79, on the object
  as it is then: \<open>verbose\<close> and \<open>logger\<close> are assigned only at lines 87 and 88. When it
  throws, the constructor throws, and what was written to the world stays written.
\<close>

definition constructor ::
  "(Html5QrcodeSupportedFormats \<Rightarrow> string) \<Rightarrow> Html5QrcodeSupportedFormats list \<Rightarrow> bool \<Rightarrow> 'l \<Rightarrow>
   string option \<Rightarrow> world \<Rightarrow> ('e rejection + 'l ZXingWasmQrcodeDecoder) \<times> world" where
  "constructor toString requestedFormats verbose_arg logger_arg wasmLocationOveride w =
     (let (this, w1) = constructor_override wasmLocationOveride (fields_init, w)
      in case createZXingFormats this toString requestedFormats w1 of
           (Inl e, w2) \<Rightarrow> (Inl e, w2)
         | (Inr formats_list, w2) \<Rightarrow>
             (Inr (this\<lparr> decodeHints :=
                            Some \<lparr>tryHarder = False, formats = formats_list, maxNumberOfSymbols = 1\<rparr>,
                          verbose := Some verbose_arg,
                          logger := Some logger_arg \<rparr>),
              w2))"

text \<open>
  \<open>decode\<close> (lines 101 to 115), an \<open>async\<close> function: the outcome is how its promise
  settles. The state is the adapter object and the engine's state. \<open>decode\<close> itself
  assigns to no field and calls the engine once; the object in the field \<open>decodeHints\<close>
  is the one the engine was handed, so after the call it holds what the engine left in
  it (a field that is \<open>undefined\<close> stays so). A value the canvas or the engine throws is
  rethrown as it is.
\<close>

definition decode ::
  "('e, 'img, 'r, 's) engine \<Rightarrow> ('e, 'img) HTMLCanvasElement \<Rightarrow>
   'l ZXingWasmQrcodeDecoder \<times> 's \<Rightarrow>
   ('e rejection + QrcodeResult) \<times> ('l ZXingWasmQrcodeDecoder \<times> 's)" where
  "decode readBarcodesFromImageData canvas st =
     (let (this, s) = st in
      case getContext canvas of
        None \<Rightarrow> (Inl TypeError, (this, s))
      | Some ctx \<Rightarrow>
          (case getImageData ctx 0 0 (width canvas) (height canvas) of
             Inl e \<Rightarrow> (Inl e, (this, s))
           | Inr imageData \<Rightarrow>
               (case readBarcodesFromImageData imageData (decodeHints this) s of
                  (settled, writes, s') \<Rightarrow>
                    (let this = this\<lparr>decodeHints := map_option writes (decodeHints this)\<rparr> in
                     case settled of
                       Inl e \<Rightarrow> (Inl e, (this, s'))
                     | Inr result \<Rightarrow>
                         if length result = 0 then (Inl (Thrown ''No code found''), (this, s'))
                         else
                           (let res = result ! 0 in
                            case toHtml5QrcodeSupportedFormats this (res_format res) of
                              Inl e \<Rightarrow> (Inl e, (this, s'))
                            | Inr format \<Rightarrow>
                                (Inr \<lparr> qr_text = res_text res,
                                       qr_format = QrcodeResultFormat_create format,
                                       debugData = createDebugData this \<rparr>,
                                 (this, s')))))))"

text \<open>
  \<open>decodeAsync\<close> (lines 91 to 99): \<open>decode\<close> never throws synchronously, so the new
  promise is resolved with \<open>decode\<close>'s promise and settles as that one does.
\<close>

definition decodeAsync ::
  "('e, 'img, 'r, 's) engine \<Rightarrow> ('e, 'img) HTMLCanvasElement \<Rightarrow>
   'l ZXingWasmQrcodeDecoder \<times> 's \<Rightarrow>
   ('e rejection + QrcodeResult) \<times> ('l ZXingWasmQrcodeDecoder \<times> 's)" where
  "decodeAsync readBarcodesFromImageData canvas st = decode readBarcodesFromImageData canvas st"

text \<open>A host that decodes one canvas after the other.\<close>

fun decode_calls ::
  "('e, 'img, 'r, 's) engine \<Rightarrow> ('e, 'img) HTMLCanvasElement list \<Rightarrow>
   'l ZXingWasmQrcodeDecoder \<times> 's \<Rightarrow>
   ('e rejection + QrcodeResult) list \<times> ('l ZXingWasmQrcodeDecoder \<times> 's)" where
  "decode_calls readBarcodesFromImageData [] st = ([], st)"
| "decode_calls readBarcodesFromImageData (canvas # canvases) st =
     (let (outcome, st') = decodeAsync readBarcodesFromImageData canvas st;
          (outcomes, st'') = decode_calls readBarcodesFromImageData canvases st'
      in (outcome # outcomes, st''))"

subsection \<open>Sample values\<close>

text \<open>
  Concrete values on which the theorems below are instantiated: a world with nothing
  logged and no resolver registered, a rendering of the enum, a canvas that has a 2D
  context, an engine that settles with a given result list, counts its calls and writes
  nothing to the hints, an engine that does the same but overwrites the hints it is
  handed, and the adapter that \<open>new ZXingWasmQrcodeDecoder([QR_CODE], false, logger)\<close> returns.
\<close>

definition fresh_world :: world where
  "fresh_world = \<lparr>logged = [], moduleOverrides = None\<rparr>"

definition sample_toString :: "Html5QrcodeSupportedFormats \<Rightarrow> string" where
  "sample_toString requestedFormat = ''<format>''"

definition sample_getImageData :: "nat \<Rightarrow> nat \<Rightarrow> nat \<Rightarrow> nat \<Rightarrow> unit rejection + nat \<times> nat" where
  "sample_getImageData sx sy sw sh = Inr (sw, sh)"

definition sample_canvas :: "(unit, nat \<times> nat) HTMLCanvasElement" where
  "sample_canvas =
     \<lparr>width = 640, height = 480, getContext = Some \<lparr>getImageData = sample_getImageData\<rparr>\<rparr>"

definition engine_returning :: "ReadResult list \<Rightarrow> (unit, nat \<times> nat, unit, nat) engine" where
  "engine_returning results imageData hints calls = (Inr results, id, Suc calls)"

definition overwrite_hints :: "DecodeHints \<Rightarrow> DecodeHints" where
  "overwrite_hints hints = hints\<lparr>formats := [], maxNumberOfSymbols := 255\<rparr>"

definition engine_overwriting_hints :: "ReadResult list \<Rightarrow> (unit, nat \<times> nat, unit, nat) engine" where
  "engine_overwriting_hints results imageData hints calls = (Inr results, overwrite_hints, Suc calls)"

definition sample_adapter :: "unit ZXingWasmQrcodeDecoder" where
  "sample_adapter =
     \<lparr> formatMap = formatMap_init,
       reverseFormatMap = createReverseFormatMap formatMap_init,
       verbose = Some False,
       logger = Some (),
       decodeHints = Some \<lparr>tryHarder = False, formats = [''QRCode''], maxNumberOfSymbols = 1\<rparr>,
       wasmLocationOverride = None \<rparr>"

section \<open>Properties\<close>

subsection \<open>The tables\<close>

lemma formatMap_init_entries:
  "formatMap_init =
     [ (QR_CODE, ''QRCode''), (AZTEC, ''Aztec''), (CODABAR, ''Codabar''), (CODE_39, ''Code39''),
       (CODE_93, ''Code93''), (CODE_128, ''Code128''), (DATA_MATRIX, ''DataMatrix''),
       (MAXICODE, ''MaxiCode''), (ITF, ''ITF''), (EAN_13, ''EAN-13''), (EAN_8, ''EAN-8''),
       (PDF_417, ''PDF417''), (UPC_A, ''UPC-A''), (UPC_E, ''UPC-E'') ]"
  by (simp add: formatMap_init_def new_Map_def)

lemma reverseFormatMap_entries:
  "createReverseFormatMap formatMap_init =
     [ (''QRCode'', QR_CODE), (''Aztec'', AZTEC), (''Codabar'', CODABAR), (''Code39'', CODE_39),
       (''Code93'', CODE_93), (''Code128'', CODE_128), (''DataMatrix'', DATA_MATRIX),
       (''MaxiCode'', MAXICODE), (''ITF'', ITF), (''EAN-13'', EAN_13), (''EAN-8'', EAN_8),
       (''PDF417'', PDF_417), (''UPC-A'', UPC_A), (''UPC-E'', UPC_E) ]"
  by (simp add: formatMap_init_entries createReverseFormatMap_def Map_forEach_def)

lemma Map_has_get: "Map_has k m \<longleftrightarrow> Map_get k m \<noteq> None"
  by (simp add: Map_has_def Map_get_def map_of_eq_None_iff)

lemma Map_has_formatMap_init: "Map_has k formatMap_init \<longleftrightarrow> (\<forall>n. k \<noteq> OTHER_FORMAT n)"
  by (cases k) (simp_all add: Map_has_def formatMap_init_entries)

lemma roundtrip:
  "Map_has k formatMap_init \<Longrightarrow>
     \<exists>tag. Map_get k formatMap_init = Some tag \<and>
           Map_get tag (createReverseFormatMap formatMap_init) = Some k"
  apply (simp only: reverseFormatMap_entries)
  apply (simp only: formatMap_init_entries)
  by (cases k) (simp_all add: Map_has_def Map_get_def)

lemma formatMap_init_inj:
  "Map_get k formatMap_init = Some tag \<Longrightarrow> Map_get k' formatMap_init = Some tag \<Longrightarrow> k' = k"
proof -
  assume k: "Map_get k formatMap_init = Some tag" and k': "Map_get k' formatMap_init = Some tag"
  from k roundtrip [of k] have "Map_get tag (createReverseFormatMap formatMap_init) = Some k"
    by (auto simp: Map_has_get)
  moreover from k' roundtrip [of k'] have "Map_get tag (createReverseFormatMap formatMap_init) = Some k'"
    by (auto simp: Map_has_get)
  ultimately show "k' = k" by simp
qed

subsection \<open>Construction\<close>

lemma endsWith_append_self: "endsWith (p @ t) t"
  by (simp add: endsWith_def)

lemma endsWith_suffix: "endsWith s t \<longleftrightarrow> (\<exists>u. s = u @ t)"
proof
  assume "endsWith s t"
  then have "s = take (length s - length t) s @ t"
    by (metis append_take_drop_id endsWith_def)
  then show "\<exists>u. s = u @ t" ..
next
  assume "\<exists>u. s = u @ t"
  then show "endsWith s t" by (auto simp: endsWith_def)
qed

lemma loop_logger_undefined:
  "logger this = None \<Longrightarrow>
   createZXingFormats_loop this toString requestedFormats zxingFormats w =
     (if \<forall>r \<in> set requestedFormats. Map_has r (formatMap this)
      then Inr (zxingFormats @ map (\<lambda>r. the (Map_get r (formatMap this))) requestedFormats)
      else Inl TypeError, w)"
  by (induction requestedFormats arbitrary: zxingFormats) auto

lemma loop_logger_defined:
  "logger this = Some l \<Longrightarrow>
   createZXingFormats_loop this toString requestedFormats zxingFormats w =
     (Inr (zxingFormats @
           map (\<lambda>r. the (Map_get r (formatMap this)))
             (filter (\<lambda>r. Map_has r (formatMap this)) requestedFormats)),
      w\<lparr>logged := logged w @
           map (\<lambda>r. toString r @ '' is not supported byZXingWasmQrcodeShim'')
             (filter (\<lambda>r. \<not> Map_has r (formatMap this)) requestedFormats)\<rparr>)"
  by (induction requestedFormats arbitrary: zxingFormats w) auto

lemma constructor_override_eq:
  "constructor_override ov (fields_init, w) =
     (fields_init\<lparr>wasmLocationOverride :=
         (case ov of None \<Rightarrow> None | Some p \<Rightarrow> Some (if endsWith p ''/'' then p else p @ ''/''))\<rparr>,
      case ov of None \<Rightarrow> w
      | Some p \<Rightarrow> w\<lparr>moduleOverrides := Some (locateFile (if endsWith p ''/'' then p else p @ ''/''))\<rparr>)"
  by (simp add: constructor_override_def fields_init_def Let_def split: option.splits)

lemma constructor_eq:
  "constructor toString requestedFormats v l ov w =
     (if \<forall>r \<in> set requestedFormats. Map_has r formatMap_init
      then Inr \<lparr> formatMap = formatMap_init,
                 reverseFormatMap = createReverseFormatMap formatMap_init,
                 verbose = Some v,
                 logger = Some l,
                 decodeHints = Some \<lparr> tryHarder = False,
                   formats = map (\<lambda>r. the (Map_get r formatMap_init)) requestedFormats,
                   maxNumberOfSymbols = 1 \<rparr>,
                 wasmLocationOverride =
                   (case ov of None \<Rightarrow> None
                    | Some p \<Rightarrow> Some (if endsWith p ''/'' then p else p @ ''/'')) \<rparr>
      else Inl TypeError,
      case ov of None \<Rightarrow> w
      | Some p \<Rightarrow> w\<lparr>moduleOverrides := Some (locateFile (if endsWith p ''/'' then p else p @ ''/''))\<rparr>)"
  unfolding constructor_def constructor_override_eq createZXingFormats_def
  by (simp add: loop_logger_undefined fields_init_def)

lemma createZXingFormats_logger_assigned:
  "logger this = Some l \<Longrightarrow>
   createZXingFormats this toString requestedFormats w =
     (Inr (map (\<lambda>r. the (Map_get r (formatMap this)))
             (filter (\<lambda>r. Map_has r (formatMap this)) requestedFormats)),
      w\<lparr>logged := logged w @
           map (\<lambda>r. toString r @ '' is not supported byZXingWasmQrcodeShim'')
             (filter (\<lambda>r. \<not> Map_has r (formatMap this)) requestedFormats)\<rparr>)"
  by (simp add: createZXingFormats_def loop_logger_defined)

lemma constructor_throws:
  "r \<in> set requestedFormats \<Longrightarrow> \<not> Map_has r formatMap_init \<Longrightarrow>
   fst (constructor toString requestedFormats v l ov w) = Inl TypeError
   \<and> logged (snd (constructor toString requestedFormats v l ov w)) = logged w"
  by (auto simp: constructor_eq split: option.splits)

lemma constructor_succeeds:
  assumes "constructor toString requestedFormats v l ov w = (Inr this, w')"
  shows "\<forall>r \<in> set requestedFormats. Map_has r formatMap_init"
    and "this = \<lparr> formatMap = formatMap_init,
                 reverseFormatMap = createReverseFormatMap formatMap_init,
                 verbose = Some v,
                 logger = Some l,
                 decodeHints = Some \<lparr> tryHarder = False,
                   formats = map (\<lambda>r. the (Map_get r formatMap_init)) requestedFormats,
                   maxNumberOfSymbols = 1 \<rparr>,
                 wasmLocationOverride =
                   (case ov of None \<Rightarrow> None
                    | Some p \<Rightarrow> Some (if endsWith p ''/'' then p else p @ ''/'')) \<rparr>"
  using assms by (auto simp: constructor_eq split: if_splits)

lemma createZXingFormats_at_construction:
  "fst (createZXingFormats (fst (constructor_override ov (fields_init, w))) toString requestedFormats w1) =
   (if \<forall>r \<in> set requestedFormats. Map_has r formatMap_init
    then Inr (map (\<lambda>r. the (Map_get r formatMap_init)) requestedFormats)
    else Inl TypeError)"
  unfolding constructor_override_eq createZXingFormats_def
  by (simp add: loop_logger_undefined fields_init_def)

lemma endsWith_separator_twice: "endsWith (p @ ''/'') ''//'' \<longleftrightarrow> endsWith p ''/''"
proof
  assume "endsWith (p @ ''/'') ''//''"
  then obtain u where "p @ ''/'' = u @ ''//''" by (auto simp: endsWith_suffix)
  then have "p @ ''/'' = (u @ ''/'') @ ''/''" by simp
  then have "p = u @ ''/''" by (simp only: append_same_eq)
  then show "endsWith p ''/''" by (simp add: endsWith_append_self)
next
  assume "endsWith p ''/''"
  then obtain u where "p = u @ ''/''" by (auto simp: endsWith_suffix)
  then have "p @ ''/'' = u @ ''//''" by simp
  then show "endsWith (p @ ''/'') ''//''" by (simp only: endsWith_append_self)
qed

lemma count_tags:
  assumes "\<forall>r \<in> set requestedFormats. Map_has r formatMap_init"
      and "Map_get k formatMap_init = Some tag"
  shows "count_list (map (\<lambda>r. the (Map_get r formatMap_init)) requestedFormats) tag
           = count_list requestedFormats k"
  using assms(1)
proof (induction requestedFormats)
  case Nil
  then show ?case by simp
next
  case (Cons r rest)
  from Cons.prems obtain t where t: "Map_get r formatMap_init = Some t"
    by (auto simp: Map_has_get)
  have "t = tag \<longleftrightarrow> r = k"
    using t assms(2) formatMap_init_inj [of k tag r] by auto
  with Cons t show ?case by simp
qed

lemma count_list_filter: "P k \<Longrightarrow> count_list (filter P xs) k = count_list xs k"
  by (induction xs) auto

lemma createZXingFormats_counts:
  assumes "createZXingFormats this toString requestedFormats w = (Inr translated, w1)"
      and "formatMap this = formatMap_init"
      and "Map_get k formatMap_init = Some tag"
  shows "count_list translated tag = count_list requestedFormats k"
proof (cases "logger this")
  case None
  with assms(1,2) have "\<forall>r \<in> set requestedFormats. Map_has r formatMap_init"
    and "translated = map (\<lambda>r. the (Map_get r formatMap_init)) requestedFormats"
    by (auto simp: createZXingFormats_def loop_logger_undefined split: if_splits)
  with count_tags [OF _ assms(3)] show ?thesis by simp
next
  case (Some l)
  with assms(1,2) have "translated = map (\<lambda>r. the (Map_get r formatMap_init))
        (filter (\<lambda>r. Map_has r formatMap_init) requestedFormats)"
    by (simp add: createZXingFormats_logger_assigned)
  moreover have "Map_has k formatMap_init"
    using assms(3) by (simp add: Map_has_get)
  ultimately show ?thesis
    using count_tags [OF _ assms(3), of "filter (\<lambda>r. Map_has r formatMap_init) requestedFormats"]
    by (simp add: count_list_filter)
qed

subsection \<open>Decoding\<close>

lemma sample_constructed:
  "constructor sample_toString [QR_CODE] False () None fresh_world = (Inr sample_adapter, fresh_world)"
proof -
  have "the (Map_get QR_CODE formatMap_init) = ''QRCode''"
    by (simp add: Map_get_def formatMap_init_entries)
  then show ?thesis
    by (simp add: constructor_eq sample_adapter_def Map_has_formatMap_init fresh_world_def)
qed

lemma decode_cases:
  assumes "getContext canvas = Some ctx"
      and "getImageData ctx 0 0 (width canvas) (height canvas) = Inr imageData"
      and "engine imageData (decodeHints this) s = (Inr result, writes, s')"
  shows "decode engine canvas (this, s) =
           (case result of
              [] \<Rightarrow> Inl (Thrown ''No code found'')
            | res # others \<Rightarrow>
                (case Map_get (res_format res) (reverseFormatMap this) of
                   None \<Rightarrow> Inl (Thrown (''reverseFormatMap doesn't have '' @ res_format res))
                 | Some format \<Rightarrow>
                     Inr \<lparr> qr_text = res_text res, qr_format = QrcodeResultFormat format,
                           debugData = \<lparr>decoderName = ''zxing-wasm''\<rparr> \<rparr>),
            (this\<lparr>decodeHints := map_option writes (decodeHints this)\<rparr>, s'))"
  using assms
  by (auto simp: decode_def toHtml5QrcodeSupportedFormats_def Map_has_get
        QrcodeResultFormat_create_def createDebugData_def split: list.splits option.splits)

lemma decode_adapter_after:
  "fst (snd (decode engine canvas (this, s))) =
     (case getContext canvas of
        None \<Rightarrow> this
      | Some ctx \<Rightarrow>
          (case getImageData ctx 0 0 (width canvas) (height canvas) of
             Inl e \<Rightarrow> this
           | Inr imageData \<Rightarrow>
               this\<lparr>decodeHints :=
                 map_option (fst (snd (engine imageData (decodeHints this) s))) (decodeHints this)\<rparr>))"
  by (simp add: decode_def Let_def split: option.splits sum.splits prod.splits)

lemma decode_frame:
  "\<exists>hints. fst (snd (decode engine canvas (this, s))) = this\<lparr>decodeHints := hints\<rparr>"
proof -
  have "\<exists>hints. this = this\<lparr>decodeHints := hints\<rparr>"
    by (rule exI [of _ "decodeHints this"]) simp
  then show ?thesis
    by (auto simp: decode_adapter_after split: option.splits sum.splits)
qed

lemma decode_calls_frame:
  "\<exists>hints. fst (snd (decode_calls engine canvases (this, s))) = this\<lparr>decodeHints := hints\<rparr>"
proof (induction canvases arbitrary: this s)
  case Nil
  have "fst (snd (decode_calls engine [] (this, s))) = this\<lparr>decodeHints := decodeHints this\<rparr>"
    by simp
  then show ?case ..
next
  case (Cons canvas canvases)
  obtain outcome this' s' where d: "decode engine canvas (this, s) = (outcome, this', s')"
    by (metis prod_cases3)
  with decode_frame [of engine canvas this s] obtain h where t: "this' = this\<lparr>decodeHints := h\<rparr>"
    by auto
  from Cons.IH [of this' s'] obtain h' where
    "fst (snd (decode_calls engine canvases (this', s'))) = this'\<lparr>decodeHints := h'\<rparr>" ..
  with t have "fst (snd (decode_calls engine canvases (this', s'))) = this\<lparr>decodeHints := h'\<rparr>"
    by simp
  with d have "fst (snd (decode_calls engine (canvas # canvases) (this, s))) = this\<lparr>decodeHints := h'\<rparr>"
    by (simp add: decodeAsync_def split_beta)
  then show ?case ..
qed

lemma decode_keeps_adapter:
  assumes "\<And>imageData hints s0. fst (snd (engine imageData hints s0)) = id"
  shows "fst (snd (decode engine canvas (this, s))) = this"
  by (simp add: decode_adapter_after assms option.map_id split: option.splits sum.splits)

lemma decode_calls_keep_adapter:
  assumes "\<And>imageData hints s0. fst (snd (engine imageData hints s0)) = id"
  shows "fst (snd (decode_calls engine canvases (this, s))) = this"
proof (induction canvases arbitrary: s)
  case Nil
  then show ?case by simp
next
  case (Cons canvas canvases)
  obtain outcome this' s' where d: "decode engine canvas (this, s) = (outcome, this', s')"
    by (metis prod_cases3)
  with decode_keeps_adapter [where engine = engine and canvas = canvas and this = this and s = s, OF assms]
  have "this' = this" by simp
  with d Cons.IH [of s'] show ?case
    by (simp add: decodeAsync_def split_beta)
qed

lemma decode_reads_hints:
  "decode engine canvas (this, s) = decode (\<lambda>imageData hints. engine imageData (decodeHints this)) canvas (this, s)"
  by (simp add: decode_def)

lemma decode_steps_engine:
  assumes "getContext canvas = Some ctx"
      and "getImageData ctx 0 0 (width canvas) (height canvas) = Inr imageData"
  shows "snd (snd (decode engine canvas (this, s))) = snd (snd (engine imageData (decodeHints this) s))"
  using assms
  by (auto simp: decode_def Let_def split: option.splits sum.splits prod.splits)

lemma decode_calls_read_hints:
  assumes "\<And>imageData hints s0. fst (snd (engine imageData hints s0)) = id"
  shows "decode_calls engine canvases (this, s) =
         decode_calls (\<lambda>imageData hints. engine imageData (decodeHints this)) canvases (this, s)"
proof (induction canvases arbitrary: s)
  case Nil
  then show ?case by simp
next
  case (Cons canvas canvases)
  obtain outcome this' s' where d: "decode engine canvas (this, s) = (outcome, this', s')"
    by (metis prod_cases3)
  with decode_keeps_adapter [where engine = engine and canvas = canvas and this = this and s = s, OF assms]
  have t: "this' = this" by simp
  from d have d': "decode (\<lambda>imageData hints. engine imageData (decodeHints this)) canvas (this, s) = (outcome, this', s')"
    by (simp only: decode_reads_hints [symmetric])
  show ?case
    using Cons.IH [of s'] by (simp add: decodeAsync_def d d' t)
qed

section \<open>The claims\<close>

text \<open>
  Claim C1, as amended. When the engine settles with a non-empty result list whose first
  result carries a tag that the reverse table maps, \<open>decode\<close> resolves with the host
  result made of the first result's text, the symbology the reverse table gives for the
  first result's tag, and the fixed debug data naming \<open>zxing-wasm\<close>. The results after
  the first (\<open>others\<close>) do not occur in the outcome. \<open>decodeAsync\<close> settles as
  \<open>decode\<close> does. (The adapter afterwards is the one before, its hints object holding
  what the engine left in it.)
\<close>

theorem decode_first_result:
  assumes "getContext canvas = Some ctx"
      and "getImageData ctx 0 0 (width canvas) (height canvas) = Inr imageData"
      and "engine imageData (decodeHints this) s = (Inr (res # others), writes, s')"
      and "Map_get (res_format res) (reverseFormatMap this) = Some format"
  shows "decode engine canvas (this, s) =
           (Inr \<lparr> qr_text = res_text res, qr_format = QrcodeResultFormat format,
                  debugData = \<lparr>decoderName = ''zxing-wasm''\<rparr> \<rparr>,
            (this\<lparr>decodeHints := map_option writes (decodeHints this)\<rparr>, s'))
         \<and> decodeAsync engine canvas (this, s) = decode engine canvas (this, s)"
  using decode_cases [where engine = engine, OF assms(1-3)] assms(4) by (simp add: decodeAsync_def)

text \<open>
  The theorem at work: the engine reports an EAN-13 code first and a second code whose tag
  the table does not know; the outcome is built from the first one alone.
\<close>

theorem decode_first_result_witness:
  "getContext sample_canvas = Some \<lparr>getImageData = sample_getImageData\<rparr>
   \<and> sample_getImageData 0 0 (width sample_canvas) (height sample_canvas) = Inr (640, 480)
   \<and> engine_returning [\<lparr>res_text = ''hello'', res_format = ''EAN-13''\<rparr>,
                        \<lparr>res_text = ''second'', res_format = ''DataBar''\<rparr>]
        (640, 480) (decodeHints sample_adapter) 0
      = (Inr [\<lparr>res_text = ''hello'', res_format = ''EAN-13''\<rparr>,
              \<lparr>res_text = ''second'', res_format = ''DataBar''\<rparr>], id, 1)
   \<and> Map_get ''EAN-13'' (reverseFormatMap sample_adapter) = Some EAN_13
   \<and> decode (engine_returning [\<lparr>res_text = ''hello'', res_format = ''EAN-13''\<rparr>,
                               \<lparr>res_text = ''second'', res_format = ''DataBar''\<rparr>])
        sample_canvas (sample_adapter, 0)
      = (Inr \<lparr> qr_text = ''hello'', qr_format = QrcodeResultFormat EAN_13,
               debugData = \<lparr>decoderName = ''zxing-wasm''\<rparr> \<rparr>, (sample_adapter, 1))"
proof -
  have c: "getContext sample_canvas = Some \<lparr>getImageData = sample_getImageData\<rparr>"
    by (simp add: sample_canvas_def)
  have i: "getImageData \<lparr>getImageData = sample_getImageData\<rparr> 0 0 (width sample_canvas) (height sample_canvas)
             = Inr (640, 480)"
    by (simp add: sample_canvas_def sample_getImageData_def)
  have e: "engine_returning [\<lparr>res_text = ''hello'', res_format = ''EAN-13''\<rparr>,
                             \<lparr>res_text = ''second'', res_format = ''DataBar''\<rparr>]
             (640, 480) (decodeHints sample_adapter) 0
           = (Inr (\<lparr>res_text = ''hello'', res_format = ''EAN-13''\<rparr> #
                   [\<lparr>res_text = ''second'', res_format = ''DataBar''\<rparr>]), id, 1)"
    by (simp add: engine_returning_def)
  have m: "Map_get (res_format \<lparr>res_text = ''hello'', res_format = ''EAN-13''\<rparr>)
             (reverseFormatMap sample_adapter) = Some EAN_13"
    by (simp add: sample_adapter_def reverseFormatMap_entries Map_get_def)
  from decode_first_result
         [where engine = "engine_returning [\<lparr>res_text = ''hello'', res_format = ''EAN-13''\<rparr>,
                                            \<lparr>res_text = ''second'', res_format = ''DataBar''\<rparr>]",
          OF c i e m] c i e m
  show ?thesis by (simp add: option.map_id)
qed

text \<open>
  Claim C1 as it is worded (every non-empty result list makes \<open>decode\<close> resolve) fails:
  on the adapter constructed for \<open>[QR_CODE]\<close>, a result list whose only result is
  tagged \<open>DataBar\<close> makes \<open>decode\<close> reject.
\<close>

theorem decode_unmapped_first_result_counterexample:
  "(constructor sample_toString [QR_CODE] False () None fresh_world
      :: (unit rejection + unit ZXingWasmQrcodeDecoder) \<times> world) = (Inr sample_adapter, fresh_world)
   \<and> decode (engine_returning [\<lparr>res_text = ''0123'', res_format = ''DataBar''\<rparr>])
        sample_canvas (sample_adapter, 0)
      = (Inl (Thrown ''reverseFormatMap doesn't have DataBar''), (sample_adapter, 1))"
  by (simp add: sample_constructed decode_def sample_canvas_def sample_getImageData_def
        engine_returning_def toHtml5QrcodeSupportedFormats_def sample_adapter_def
        reverseFormatMap_entries Map_has_def)

text \<open>
  Claim C2. When the engine settles with the empty list, \<open>decode\<close> (and \<open>decodeAsync\<close>)
  rejects with the thrown value \<open>No code found\<close>. The engine has been called once: its
  state is the one it returned (no retry), and there is no result (no fallback). The
  thrown value differs from every value the mapping fault throws, from a \<open>TypeError\<close>
  and from every value that is not a string, so a host can tell the adapter's two
  rejections apart.
\<close>

theorem decode_no_code_found:
  assumes "getContext canvas = Some ctx"
      and "getImageData ctx 0 0 (width canvas) (height canvas) = Inr imageData"
      and "engine imageData (decodeHints this) s = (Inr [], writes, s')"
  shows "decode engine canvas (this, s) =
           (Inl (Thrown ''No code found''),
            (this\<lparr>decodeHints := map_option writes (decodeHints this)\<rparr>, s'))
         \<and> decodeAsync engine canvas (this, s) =
           (Inl (Thrown ''No code found''),
            (this\<lparr>decodeHints := map_option writes (decodeHints this)\<rparr>, s'))
         \<and> (Thrown ''No code found'' :: 'e rejection) \<noteq> Thrown (''reverseFormatMap doesn't have '' @ tag)
         \<and> (Thrown ''No code found'' :: 'e rejection) \<noteq> TypeError
         \<and> Thrown ''No code found'' \<noteq> Foreign e"
  using decode_cases [where engine = engine, OF assms] by (simp add: decodeAsync_def)

text \<open>
  The theorem at work: the engine finds nothing on the sample canvas.
\<close>

theorem decode_no_code_found_witness:
  "getContext sample_canvas = Some \<lparr>getImageData = sample_getImageData\<rparr>
   \<and> sample_getImageData 0 0 (width sample_canvas) (height sample_canvas) = Inr (640, 480)
   \<and> engine_returning [] (640, 480) (decodeHints sample_adapter) 0 = (Inr [], id, 1)
   \<and> decodeAsync (engine_returning []) sample_canvas (sample_adapter, 0)
      = (Inl (Thrown ''No code found''), (sample_adapter, 1))"
proof -
  have c: "getContext sample_canvas = Some \<lparr>getImageData = sample_getImageData\<rparr>"
    by (simp add: sample_canvas_def)
  have i: "getImageData \<lparr>getImageData = sample_getImageData\<rparr> 0 0 (width sample_canvas) (height sample_canvas)
             = Inr (640, 480)"
    by (simp add: sample_canvas_def sample_getImageData_def)
  have e: "engine_returning [] (640, 480) (decodeHints sample_adapter) 0 = (Inr [], id, 1)"
    by (simp add: engine_returning_def)
  from decode_no_code_found [where engine = "engine_returning []", OF c i e] c i e
  show ?thesis by (simp add: option.map_id)
qed

text \<open>
  Claim C3. When the first result's tag is not a key of the reverse table, \<open>decode\<close>
  (and \<open>decodeAsync\<close>) rejects with the thrown value \<open>reverseFormatMap doesn't have\<close>
  followed by the tag itself; it resolves with no result at all, so no symbology is put
  in the tag's place.
\<close>

theorem decode_unmapped_tag:
  assumes "getContext canvas = Some ctx"
      and "getImageData ctx 0 0 (width canvas) (height canvas) = Inr imageData"
      and "engine imageData (decodeHints this) s = (Inr (res # others), writes, s')"
      and "\<not> Map_has (res_format res) (reverseFormatMap this)"
  shows "decode engine canvas (this, s) =
           (Inl (Thrown (''reverseFormatMap doesn't have '' @ res_format res)),
            (this\<lparr>decodeHints := map_option writes (decodeHints this)\<rparr>, s'))
         \<and> decodeAsync engine canvas (this, s) = decode engine canvas (this, s)
         \<and> fst (decode engine canvas (this, s)) \<noteq> Inr result"
  using decode_cases [where engine = engine, OF assms(1-3)] assms(4)
  by (simp add: decodeAsync_def Map_has_get)

text \<open>
  The theorem at work: the engine reports a tag that the table does not map.
\<close>

theorem decode_unmapped_tag_witness:
  "getContext sample_canvas = Some \<lparr>getImageData = sample_getImageData\<rparr>
   \<and> sample_getImageData 0 0 (width sample_canvas) (height sample_canvas) = Inr (640, 480)
   \<and> engine_returning [\<lparr>res_text = ''0123'', res_format = ''MicroQRCode''\<rparr>]
        (640, 480) (decodeHints sample_adapter) 0
      = (Inr [\<lparr>res_text = ''0123'', res_format = ''MicroQRCode''\<rparr>], id, 1)
   \<and> \<not> Map_has ''MicroQRCode'' (reverseFormatMap sample_adapter)
   \<and> decode (engine_returning [\<lparr>res_text = ''0123'', res_format = ''MicroQRCode''\<rparr>])
        sample_canvas (sample_adapter, 0)
      = (Inl (Thrown ''reverseFormatMap doesn't have MicroQRCode''), (sample_adapter, 1))"
proof -
  have c: "getContext sample_canvas = Some \<lparr>getImageData = sample_getImageData\<rparr>"
    by (simp add: sample_canvas_def)
  have i: "getImageData \<lparr>getImageData = sample_getImageData\<rparr> 0 0 (width sample_canvas) (height sample_canvas)
             = Inr (640, 480)"
    by (simp add: sample_canvas_def sample_getImageData_def)
  have e: "engine_returning [\<lparr>res_text = ''0123'', res_format = ''MicroQRCode''\<rparr>]
             (640, 480) (decodeHints sample_adapter) 0
           = (Inr (\<lparr>res_text = ''0123'', res_format = ''MicroQRCode''\<rparr> # []), id, 1)"
    by (simp add: engine_returning_def)
  have m: "\<not> Map_has (res_format \<lparr>res_text = ''0123'', res_format = ''MicroQRCode''\<rparr>)
             (reverseFormatMap sample_adapter)"
    by (simp add: sample_adapter_def reverseFormatMap_entries Map_has_def)
  from decode_unmapped_tag
         [where engine = "engine_returning [\<lparr>res_text = ''0123'', res_format = ''MicroQRCode''\<rparr>]",
          OF c i e m] c i e m
  show ?thesis by (simp add: option.map_id)
qed

text \<open>
  Claim C4. For every kind that is a key of the forward table, the forward table gives a
  tag, the reverse table gives the kind back for that tag, and no other kind has that
  tag (the forward table is injective).
\<close>

theorem formatMap_roundtrip:
  assumes "Map_has k formatMap_init"
  shows "\<exists>tag. Map_get k formatMap_init = Some tag
           \<and> Map_get tag (createReverseFormatMap formatMap_init) = Some k
           \<and> (\<forall>k'. Map_get k' formatMap_init = Some tag \<longrightarrow> k' = k)"
  using roundtrip [OF assms] formatMap_init_inj by blast

text \<open>
  The theorem at work, on \<open>EAN_13\<close>.
\<close>

theorem formatMap_roundtrip_witness:
  "Map_has EAN_13 formatMap_init
   \<and> Map_get EAN_13 formatMap_init = Some ''EAN-13''
   \<and> Map_get ''EAN-13'' (createReverseFormatMap formatMap_init) = Some EAN_13"
proof -
  have h: "Map_has EAN_13 formatMap_init"
    by (simp add: Map_has_formatMap_init)
  have g: "Map_get EAN_13 formatMap_init = Some ''EAN-13''"
    by (simp add: Map_get_def formatMap_init_entries)
  from formatMap_roundtrip [OF h] g h show ?thesis by auto
qed

text \<open>
  Claim C5 does not hold of the constructor. \<open>createZXingFormats\<close> is called at line 79,
  before \<open>this.logger\<close> is assigned at line 88, so for the first requested kind that
  the table does not map \<open>this.logger.logError\<close> throws a \<open>TypeError\<close>: nothing is logged
  and no adapter is constructed. (With the field assigned, the function does what the
  claim says: lemma \<open>createZXingFormats_logger_assigned\<close>.)
\<close>

theorem constructor_unsupported_format_throws:
  "(constructor sample_toString [QR_CODE, OTHER_FORMAT 0, EAN_13] False () None fresh_world
      :: (unit rejection + unit ZXingWasmQrcodeDecoder) \<times> world)
   = (Inl TypeError, fresh_world)"
  by (simp add: constructor_eq Map_has_formatMap_init)

text \<open>
  Claim C6, as amended. After a construction with override path \<open>p\<close> the stored path
  ends with a separator. A path that does not end with a separator is stored with one
  separator appended, and then does not end with two; a path that ends with a separator
  is stored as it is.
\<close>

theorem override_stored_with_separator:
  assumes "constructor toString requestedFormats v l (Some p) w = (Inr this, w')"
  shows "\<exists>stored. wasmLocationOverride this = Some stored \<and> endsWith stored ''/''
           \<and> (if endsWith p ''/'' then stored = p
               else stored = p @ ''/'' \<and> \<not> endsWith stored ''//'')"
  using assms
  by (auto simp: constructor_eq endsWith_append_self endsWith_separator_twice split: if_splits)

text \<open>
  The theorem at work, on the path \<open>assets\<close>.
\<close>

theorem override_stored_with_separator_witness:
  "(constructor sample_toString [QR_CODE] False () (Some ''assets'') fresh_world
      :: (unit rejection + unit ZXingWasmQrcodeDecoder) \<times> world)
   = (Inr (sample_adapter\<lparr>wasmLocationOverride := Some ''assets/''\<rparr>),
      fresh_world\<lparr>moduleOverrides := Some (locateFile ''assets/'')\<rparr>)
   \<and> endsWith ''assets/'' ''/'' \<and> \<not> endsWith ''assets'' ''/'' \<and> \<not> endsWith ''assets/'' ''//''"
proof -
  have t: "the (Map_get QR_CODE formatMap_init) = ''QRCode''"
    by (simp add: Map_get_def formatMap_init_entries)
  have n: "\<not> endsWith ''assets'' ''/''"
    by (simp add: endsWith_def)
  have c: "(constructor sample_toString [QR_CODE] False () (Some ''assets'') fresh_world
             :: (unit rejection + unit ZXingWasmQrcodeDecoder) \<times> world)
           = (Inr (sample_adapter\<lparr>wasmLocationOverride := Some ''assets/''\<rparr>),
              fresh_world\<lparr>moduleOverrides := Some (locateFile ''assets/'')\<rparr>)"
    using t n by (simp add: constructor_eq sample_adapter_def Map_has_formatMap_init)
  from override_stored_with_separator [OF c] c n show ?thesis by simp
qed

text \<open>
  Claim C6 as it is worded (the stored path always ends with exactly one separator) fails
  on a path that already ends with two: it is stored unchanged.
\<close>

theorem override_double_separator_counterexample:
  "(constructor sample_toString [QR_CODE] False () (Some ''assets//'') fresh_world
      :: (unit rejection + unit ZXingWasmQrcodeDecoder) \<times> world)
   = (Inr (sample_adapter\<lparr>wasmLocationOverride := Some ''assets//''\<rparr>),
      fresh_world\<lparr>moduleOverrides := Some (locateFile ''assets//'')\<rparr>)
   \<and> endsWith ''assets//'' ''//''"
proof -
  have t: "the (Map_get QR_CODE formatMap_init) = ''QRCode''"
    by (simp add: Map_get_def formatMap_init_entries)
  have n: "endsWith ''assets//'' ''/''" "endsWith ''assets//'' ''//''"
    by (simp_all add: endsWith_def)
  show ?thesis
    using t n by (simp add: constructor_eq sample_adapter_def Map_has_formatMap_init)
qed

text \<open>
  Claim C7. A construction with override path \<open>p\<close> registers a resolver. For a file name
  that ends with \<open>.wasm\<close> it returns the stored path (\<open>p\<close>, with a separator appended
  when \<open>p\<close> does not end with one) followed by the file name; for every other file name
  it returns the default prefix followed by the file name.
\<close>

theorem resolver_redirects_binary_asset:
  "\<exists>resolver.
     moduleOverrides (snd (constructor toString requestedFormats v l (Some p) w)) = Some resolver
     \<and> (\<forall>path prefix.
           (endsWith path ''.wasm'' \<longrightarrow>
              resolver path prefix = (if endsWith p ''/'' then p else p @ ''/'') @ path)
         \<and> (\<not> endsWith path ''.wasm'' \<longrightarrow> resolver path prefix = prefix @ path))"
  by (simp add: constructor_eq locateFile_def)

text \<open>
  The theorem at work: the engine's binary is redirected, its script is not.
\<close>

theorem resolver_redirects_binary_asset_witness:
  "\<exists>resolver.
     moduleOverrides (snd (constructor sample_toString [QR_CODE] False () (Some ''assets'') fresh_world
        :: (unit rejection + unit ZXingWasmQrcodeDecoder) \<times> world)) = Some resolver
     \<and> endsWith ''zxing_reader.wasm'' ''.wasm''
     \<and> resolver ''zxing_reader.wasm'' ''https://cdn.example/'' = ''assets/zxing_reader.wasm''
     \<and> \<not> endsWith ''zxing_reader.js'' ''.wasm''
     \<and> resolver ''zxing_reader.js'' ''https://cdn.example/'' = ''https://cdn.example/zxing_reader.js''"
proof -
  have a: "endsWith ''zxing_reader.wasm'' ''.wasm''" "\<not> endsWith ''zxing_reader.js'' ''.wasm''"
          "\<not> endsWith ''assets'' ''/''"
    by (simp_all add: endsWith_def)
  from resolver_redirects_binary_asset
         [of sample_toString "[QR_CODE]" False "()" "''assets''" fresh_world]
  obtain resolver where
    r: "moduleOverrides (snd (constructor sample_toString [QR_CODE] False () (Some ''assets'') fresh_world
          :: (unit rejection + unit ZXingWasmQrcodeDecoder) \<times> world)) = Some resolver"
    and p: "\<And>path prefix. endsWith path ''.wasm'' \<Longrightarrow>
              resolver path prefix = (if endsWith ''assets'' ''/'' then ''assets'' else ''assets'' @ ''/'') @ path"
    and q: "\<And>path prefix. \<not> endsWith path ''.wasm'' \<Longrightarrow> resolver path prefix = prefix @ path"
    by blast
  from p [OF a(1), of "''https://cdn.example/''"] q [OF a(2), of "''https://cdn.example/''"] a r
  show ?thesis by simp
qed

text \<open>
  Claim C8, as amended. The adapter a construction returns has hints with \<open>tryHarder\<close>
  false, \<open>maxNumberOfSymbols\<close> 1 and as \<open>formats\<close> the list that \<open>createZXingFormats\<close>
  returned at line 79 (the tags of the requested kinds, in order). Its two tables are the
  initial ones. Whatever the engine and the canvases do, \<open>decode\<close> assigns to no field:
  after one call, and after any sequence of calls, the adapter is the constructed one up
  to the contents of its hints object. A call that reaches the engine steps it once, with
  the hints of the adapter. The hints object itself is handed to the engine by reference:
  when the engine writes nothing to it, the adapter after any sequence of calls of
  \<open>decode\<close> or \<open>decodeAsync\<close> is the constructed one, and every call of the sequence hands
  the engine the hints of the construction (the calls come out the same when the engine
  is handed these hints whatever it is passed).
\<close>

theorem hints_fixed_and_adapter_frame:
  assumes "constructor toString requestedFormats v (l :: 'l) ov w = (Inr this, w')"
  shows "\<exists>translated.
           fst (createZXingFormats (fst (constructor_override ov (fields_init :: 'l ZXingWasmQrcodeDecoder, w)))
                  toString requestedFormats
                  (snd (constructor_override ov (fields_init :: 'l ZXingWasmQrcodeDecoder, w))))
             = (Inr translated :: 'e rejection + string list)
           \<and> translated = map (\<lambda>k. the (Map_get k formatMap_init)) requestedFormats
           \<and> decodeHints this = Some \<lparr>tryHarder = False, formats = translated, maxNumberOfSymbols = 1\<rparr>
           \<and> formatMap this = formatMap_init
           \<and> reverseFormatMap this = createReverseFormatMap formatMap_init
           \<and> (\<exists>hints. fst (snd (decode engine canvas (this, s))) = this\<lparr>decodeHints := hints\<rparr>)
           \<and> (\<exists>hints. fst (snd (decode_calls engine canvases (this, s))) = this\<lparr>decodeHints := hints\<rparr>)
           \<and> (getContext canvas = Some ctx
                \<and> getImageData ctx 0 0 (width canvas) (height canvas) = Inr imageData
              \<longrightarrow> snd (snd (decode engine canvas (this, s))) =
                  snd (snd (engine imageData
                    (Some \<lparr>tryHarder = False, formats = translated, maxNumberOfSymbols = 1\<rparr>) s)))
           \<and> ((\<forall>imageData hints s0. fst (snd (engine imageData hints s0)) = id)
              \<longrightarrow> fst (snd (decode engine canvas (this, s))) = this
                \<and> fst (snd (decodeAsync engine canvas (this, s))) = this
                \<and> fst (snd (decode_calls engine canvases (this, s))) = this
                \<and> decode_calls engine canvases (this, s) =
                    decode_calls
                      (\<lambda>imageData hints. engine imageData
                         (Some \<lparr>tryHarder = False, formats = translated, maxNumberOfSymbols = 1\<rparr>))
                      canvases (this, s))"
proof -
  note ok = constructor_succeeds [OF assms]
  let ?translated = "map (\<lambda>k. the (Map_get k formatMap_init)) requestedFormats"
  let ?hints = "\<lparr>tryHarder = False, formats = ?translated, maxNumberOfSymbols = 1\<rparr>"
  have a: "fst (createZXingFormats (fst (constructor_override ov (fields_init :: 'l ZXingWasmQrcodeDecoder, w)))
                  toString requestedFormats
                  (snd (constructor_override ov (fields_init :: 'l ZXingWasmQrcodeDecoder, w))))
        = (Inr ?translated :: 'e rejection + string list)"
    using ok(1) by (simp add: createZXingFormats_at_construction)
  have h: "decodeHints this = Some ?hints"
    and fm: "formatMap this = formatMap_init"
    and rfm: "reverseFormatMap this = createReverseFormatMap formatMap_init"
    by (simp_all add: ok(2))
  have f1: "\<exists>hints. fst (snd (decode engine canvas (this, s))) = this\<lparr>decodeHints := hints\<rparr>"
    by (rule decode_frame)
  have f2: "\<exists>hints. fst (snd (decode_calls engine canvases (this, s))) = this\<lparr>decodeHints := hints\<rparr>"
    by (rule decode_calls_frame)
  have st: "getContext canvas = Some ctx
              \<and> getImageData ctx 0 0 (width canvas) (height canvas) = Inr imageData
            \<longrightarrow> snd (snd (decode engine canvas (this, s))) = snd (snd (engine imageData (Some ?hints) s))"
    using decode_steps_engine [where engine = engine and canvas = canvas and ctx = ctx
        and imageData = imageData and this = this and s = s]
    by (simp add: h)
  have u: "(\<forall>imageData hints s0. fst (snd (engine imageData hints s0)) = id)
           \<longrightarrow> fst (snd (decode engine canvas (this, s))) = this
             \<and> fst (snd (decodeAsync engine canvas (this, s))) = this
             \<and> fst (snd (decode_calls engine canvases (this, s))) = this
             \<and> decode_calls engine canvases (this, s) =
                 decode_calls (\<lambda>imageData hints. engine imageData (Some ?hints)) canvases (this, s)"
  proof
    assume "\<forall>imageData hints s0. fst (snd (engine imageData hints s0)) = id"
    then have q: "\<And>imageData hints s0. fst (snd (engine imageData hints s0)) = id"
      by blast
    have k: "fst (snd (decode engine canvas (this, s))) = this"
      by (rule decode_keeps_adapter [where engine = engine, OF q])
    have ka: "fst (snd (decodeAsync engine canvas (this, s))) = this"
      using k by (simp add: decodeAsync_def)
    have kc: "fst (snd (decode_calls engine canvases (this, s))) = this"
      by (rule decode_calls_keep_adapter [where engine = engine, OF q])
    have r: "decode_calls engine canvases (this, s) =
               decode_calls (\<lambda>imageData hints. engine imageData (Some ?hints)) canvases (this, s)"
      using decode_calls_read_hints [where engine = engine and canvases = canvases
          and this = this and s = s, OF q]
      by (simp only: h)
    from k ka kc r
    show "fst (snd (decode engine canvas (this, s))) = this
             \<and> fst (snd (decodeAsync engine canvas (this, s))) = this
             \<and> fst (snd (decode_calls engine canvases (this, s))) = this
             \<and> decode_calls engine canvases (this, s) =
                 decode_calls (\<lambda>imageData hints. engine imageData (Some ?hints)) canvases (this, s)"
      by (intro conjI)
  qed
  show ?thesis
    by (rule exI [of _ ?translated], intro conjI a refl h fm rfm f1 f2 st u)
qed

text \<open>
  The theorem at work: two decode calls on the sample adapter, with an engine that writes
  nothing to the hints.
\<close>

theorem hints_fixed_and_adapter_frame_witness:
  "(constructor sample_toString [QR_CODE] False () None fresh_world
      :: (unit rejection + unit ZXingWasmQrcodeDecoder) \<times> world) = (Inr sample_adapter, fresh_world)
   \<and> decodeHints sample_adapter = Some \<lparr>tryHarder = False, formats = [''QRCode''], maxNumberOfSymbols = 1\<rparr>
   \<and> (\<forall>imageData hints s0.
         fst (snd (engine_returning [\<lparr>res_text = ''hello'', res_format = ''QRCode''\<rparr>] imageData hints s0)) = id)
   \<and> fst (snd (decode_calls (engine_returning [\<lparr>res_text = ''hello'', res_format = ''QRCode''\<rparr>])
                  [sample_canvas, sample_canvas] (sample_adapter, 0))) = sample_adapter
   \<and> getContext sample_canvas = Some \<lparr>getImageData = sample_getImageData\<rparr>
   \<and> sample_getImageData 0 0 (width sample_canvas) (height sample_canvas) = Inr (640, 480)
   \<and> snd (snd (decode (engine_returning [\<lparr>res_text = ''hello'', res_format = ''QRCode''\<rparr>])
                  sample_canvas (sample_adapter, 0))) = 1"
proof -
  have c: "(constructor sample_toString [QR_CODE] False () None fresh_world
      :: (unit rejection + unit ZXingWasmQrcodeDecoder) \<times> world) = (Inr sample_adapter, fresh_world)"
    by (rule sample_constructed)
  have t: "the (Map_get QR_CODE formatMap_init) = ''QRCode''"
    by (simp add: Map_get_def formatMap_init_entries)
  have q: "\<forall>imageData hints s0.
         fst (snd (engine_returning [\<lparr>res_text = ''hello'', res_format = ''QRCode''\<rparr>] imageData hints s0)) = id"
    by (simp add: engine_returning_def)
  have g: "getContext sample_canvas = Some \<lparr>getImageData = sample_getImageData\<rparr>"
    by (simp add: sample_canvas_def)
  have i: "getImageData \<lparr>getImageData = sample_getImageData\<rparr> 0 0 (width sample_canvas) (height sample_canvas)
             = Inr (640, 480)"
    by (simp add: sample_canvas_def sample_getImageData_def)
  from hints_fixed_and_adapter_frame
         [OF c, where engine = "engine_returning [\<lparr>res_text = ''hello'', res_format = ''QRCode''\<rparr>]"
            and canvases = "[sample_canvas, sample_canvas]" and canvas = sample_canvas and s = 0
            and ctx = "\<lparr>getImageData = sample_getImageData\<rparr>" and imageData = "(640, 480)"]
  obtain translated where
    "translated = map (\<lambda>k. the (Map_get k formatMap_init)) [QR_CODE]"
    "decodeHints sample_adapter = Some \<lparr>tryHarder = False, formats = translated, maxNumberOfSymbols = 1\<rparr>"
    "getContext sample_canvas = Some \<lparr>getImageData = sample_getImageData\<rparr>
       \<and> getImageData \<lparr>getImageData = sample_getImageData\<rparr> 0 0 (width sample_canvas) (height sample_canvas)
           = Inr (640, 480)
     \<longrightarrow> snd (snd (decode (engine_returning [\<lparr>res_text = ''hello'', res_format = ''QRCode''\<rparr>])
                     sample_canvas (sample_adapter, 0))) =
         snd (snd (engine_returning [\<lparr>res_text = ''hello'', res_format = ''QRCode''\<rparr>] (640, 480)
                     (Some \<lparr>tryHarder = False, formats = translated, maxNumberOfSymbols = 1\<rparr>) 0))"
    "(\<forall>imageData hints s0.
         fst (snd (engine_returning [\<lparr>res_text = ''hello'', res_format = ''QRCode''\<rparr>] imageData hints s0)) = id)
     \<longrightarrow> fst (snd (decode_calls (engine_returning [\<lparr>res_text = ''hello'', res_format = ''QRCode''\<rparr>])
                  [sample_canvas, sample_canvas] (sample_adapter, 0))) = sample_adapter"
    by blast
  with c t q g i show ?thesis by (simp add: engine_returning_def)
qed

text \<open>
  Claim C8 as it is worded (no decode call changes the hints) fails when the engine
  writes to the object it is handed: after one call with such an engine the hints of the
  constructed adapter are no longer the ones of the construction.
\<close>

theorem hints_overwritten_by_engine_counterexample:
  "(constructor sample_toString [QR_CODE] False () None fresh_world
      :: (unit rejection + unit ZXingWasmQrcodeDecoder) \<times> world) = (Inr sample_adapter, fresh_world)
   \<and> decodeHints sample_adapter =
       Some \<lparr>tryHarder = False, formats = [''QRCode''], maxNumberOfSymbols = 1\<rparr>
   \<and> decode (engine_overwriting_hints [\<lparr>res_text = ''hello'', res_format = ''QRCode''\<rparr>])
        sample_canvas (sample_adapter, 0)
      = (Inr \<lparr> qr_text = ''hello'', qr_format = QrcodeResultFormat QR_CODE,
               debugData = \<lparr>decoderName = ''zxing-wasm''\<rparr> \<rparr>,
         (sample_adapter\<lparr>decodeHints :=
             Some \<lparr>tryHarder = False, formats = [], maxNumberOfSymbols = 255\<rparr>\<rparr>, 1))"
proof -
  have c: "(constructor sample_toString [QR_CODE] False () None fresh_world
      :: (unit rejection + unit ZXingWasmQrcodeDecoder) \<times> world) = (Inr sample_adapter, fresh_world)"
    by (rule sample_constructed)
  have h: "decodeHints sample_adapter =
       Some \<lparr>tryHarder = False, formats = [''QRCode''], maxNumberOfSymbols = 1\<rparr>"
    by (simp add: sample_adapter_def)
  have g: "getContext sample_canvas = Some \<lparr>getImageData = sample_getImageData\<rparr>"
    by (simp add: sample_canvas_def)
  have i: "getImageData \<lparr>getImageData = sample_getImageData\<rparr> 0 0 (width sample_canvas) (height sample_canvas)
             = Inr (640, 480)"
    by (simp add: sample_canvas_def sample_getImageData_def)
  have e: "engine_overwriting_hints [\<lparr>res_text = ''hello'', res_format = ''QRCode''\<rparr>]
             (640, 480) (decodeHints sample_adapter) 0
           = (Inr [\<lparr>res_text = ''hello'', res_format = ''QRCode''\<rparr>], overwrite_hints, 1)"
    by (simp add: engine_overwriting_hints_def)
  have m: "Map_get ''QRCode'' (reverseFormatMap sample_adapter) = Some QR_CODE"
    by (simp add: sample_adapter_def reverseFormatMap_entries Map_get_def)
  have d: "decode (engine_overwriting_hints [\<lparr>res_text = ''hello'', res_format = ''QRCode''\<rparr>])
        sample_canvas (sample_adapter, 0)
      = (Inr \<lparr> qr_text = ''hello'', qr_format = QrcodeResultFormat QR_CODE,
               debugData = \<lparr>decoderName = ''zxing-wasm''\<rparr> \<rparr>,
         (sample_adapter\<lparr>decodeHints := map_option overwrite_hints (decodeHints sample_adapter)\<rparr>, 1))"
    using decode_cases
      [where engine = "engine_overwriting_hints [\<lparr>res_text = ''hello'', res_format = ''QRCode''\<rparr>]",
       OF g i e] m
    by simp
  from c h d show ?thesis by (simp add: overwrite_hints_def)
qed

text \<open>
  Claim C9. Construction with the empty list of requested kinds succeeds, logs nothing,
  and stores hints whose \<open>formats\<close> is the empty list; \<open>decode\<close> on that adapter hands
  the engine these hints (it comes out the same when the engine is handed them whatever
  it is passed, and a call that reaches the engine leaves it in the state that one call
  with these hints gives).
\<close>

theorem empty_request_gives_empty_formats:
  "\<exists>this w'. (constructor toString [] v (l :: 'l) ov w
        :: ('e rejection + 'l ZXingWasmQrcodeDecoder) \<times> world) = (Inr this, w')
     \<and> logged w' = logged w
     \<and> decodeHints this = Some \<lparr>tryHarder = False, formats = [], maxNumberOfSymbols = 1\<rparr>
     \<and> decode engine canvas (this, s) =
         decode (\<lambda>imageData hints. engine imageData
                   (Some \<lparr>tryHarder = False, formats = [], maxNumberOfSymbols = 1\<rparr>))
           canvas (this, s)
     \<and> (getContext canvas = Some ctx
          \<and> getImageData ctx 0 0 (width canvas) (height canvas) = Inr imageData
        \<longrightarrow> snd (snd (decode engine canvas (this, s))) =
            snd (snd (engine imageData
              (Some \<lparr>tryHarder = False, formats = [], maxNumberOfSymbols = 1\<rparr>) s)))"
proof -
  obtain this w' where c: "(constructor toString [] v l ov w
        :: ('e rejection + 'l ZXingWasmQrcodeDecoder) \<times> world) = (Inr this, w')"
    and l: "logged w' = logged w"
    and h: "decodeHints this = Some \<lparr>tryHarder = False, formats = [], maxNumberOfSymbols = 1\<rparr>"
    by (simp add: constructor_eq split: option.splits)
  from decode_reads_hints [of engine canvas this s] h
  have e: "decode engine canvas (this, s) =
         decode (\<lambda>imageData hints. engine imageData
                   (Some \<lparr>tryHarder = False, formats = [], maxNumberOfSymbols = 1\<rparr>))
           canvas (this, s)"
    by simp
  have st: "getContext canvas = Some ctx
          \<and> getImageData ctx 0 0 (width canvas) (height canvas) = Inr imageData
        \<longrightarrow> snd (snd (decode engine canvas (this, s))) =
            snd (snd (engine imageData
              (Some \<lparr>tryHarder = False, formats = [], maxNumberOfSymbols = 1\<rparr>) s))"
    using decode_steps_engine [where engine = engine and canvas = canvas and ctx = ctx
        and imageData = imageData and this = this and s = s]
    by (simp add: h)
  show ?thesis
    by (rule exI [of _ this], rule exI [of _ w'], intro conjI c l h e st)
qed

text \<open>
  The theorem at work, in the fresh world, with an engine that finds nothing.
\<close>

theorem empty_request_gives_empty_formats_witness:
  "\<exists>this w'. (constructor sample_toString [] False () None fresh_world
      :: (unit rejection + unit ZXingWasmQrcodeDecoder) \<times> world) = (Inr this, w')
     \<and> logged w' = []
     \<and> decodeHints this = Some \<lparr>tryHarder = False, formats = [], maxNumberOfSymbols = 1\<rparr>
     \<and> getContext sample_canvas = Some \<lparr>getImageData = sample_getImageData\<rparr>
     \<and> sample_getImageData 0 0 (width sample_canvas) (height sample_canvas) = Inr (640, 480)
     \<and> snd (snd (decode (engine_returning []) sample_canvas (this, 0))) = 1"
proof -
  have g: "getContext sample_canvas = Some \<lparr>getImageData = sample_getImageData\<rparr>"
    by (simp add: sample_canvas_def)
  have i: "getImageData \<lparr>getImageData = sample_getImageData\<rparr> 0 0 (width sample_canvas) (height sample_canvas)
             = Inr (640, 480)"
    by (simp add: sample_canvas_def sample_getImageData_def)
  from empty_request_gives_empty_formats
         [where toString = sample_toString and v = False and l = "()" and ov = None
            and w = fresh_world and engine = "engine_returning []" and canvas = sample_canvas
            and s = 0 and ctx = "\<lparr>getImageData = sample_getImageData\<rparr>" and imageData = "(640, 480)"]
  obtain this w' where
    "(constructor sample_toString [] False () None fresh_world
      :: (unit rejection + unit ZXingWasmQrcodeDecoder) \<times> world) = (Inr this, w')"
    "logged w' = logged fresh_world"
    "decodeHints this = Some \<lparr>tryHarder = False, formats = [], maxNumberOfSymbols = 1\<rparr>"
    "getContext sample_canvas = Some \<lparr>getImageData = sample_getImageData\<rparr>
       \<and> getImageData \<lparr>getImageData = sample_getImageData\<rparr> 0 0 (width sample_canvas) (height sample_canvas)
           = Inr (640, 480)
     \<longrightarrow> snd (snd (decode (engine_returning []) sample_canvas (this, 0))) =
         snd (snd (engine_returning [] (640, 480)
                     (Some \<lparr>tryHarder = False, formats = [], maxNumberOfSymbols = 1\<rparr>) 0))"
    by blast
  with g i show ?thesis by (auto simp: fresh_world_def engine_returning_def)
qed

text \<open>
  Claim C10. The tag of a kind that the table maps occurs in the translated list as many
  times as the kind occurs in the requested list: in every list \<open>createZXingFormats\<close>
  returns, and so in the hints of every constructed adapter.
\<close>

theorem duplicates_are_kept:
  assumes "Map_get k formatMap_init = Some tag"
  shows "(createZXingFormats this toString requestedFormats w = (Inr translated, w1)
            \<and> formatMap this = formatMap_init
          \<longrightarrow> count_list translated tag = count_list requestedFormats k)
       \<and> (constructor toString requestedFormats v l ov w = (Inr adapter, w')
          \<longrightarrow> (\<exists>hints. decodeHints adapter = Some hints
                \<and> count_list (formats hints) tag = count_list requestedFormats k))"
proof (intro conjI impI)
  assume "createZXingFormats this toString requestedFormats w = (Inr translated, w1)
            \<and> formatMap this = formatMap_init"
  then show "count_list translated tag = count_list requestedFormats k"
    using createZXingFormats_counts [OF _ _ assms] by blast
next
  assume c: "constructor toString requestedFormats v l ov w = (Inr adapter, w')"
  show "\<exists>hints. decodeHints adapter = Some hints
          \<and> count_list (formats hints) tag = count_list requestedFormats k"
    using constructor_succeeds [OF c] count_tags [OF _ assms, of requestedFormats]
    by simp
qed

text \<open>
  The theorem at work: \<open>QR_CODE\<close> requested twice.
\<close>

theorem duplicates_are_kept_witness:
  "\<exists>this hints.
     (constructor sample_toString [QR_CODE, EAN_13, QR_CODE] False () None fresh_world
        :: (unit rejection + unit ZXingWasmQrcodeDecoder) \<times> world) = (Inr this, fresh_world)
     \<and> Map_get QR_CODE formatMap_init = Some ''QRCode''
     \<and> decodeHints this = Some hints
     \<and> count_list (formats hints) ''QRCode'' = 2
     \<and> count_list [QR_CODE, EAN_13, QR_CODE] QR_CODE = 2"
proof -
  have g: "Map_get QR_CODE formatMap_init = Some ''QRCode''"
    by (simp add: Map_get_def formatMap_init_entries)
  obtain this where c: "(constructor sample_toString [QR_CODE, EAN_13, QR_CODE] False () None fresh_world
        :: (unit rejection + unit ZXingWasmQrcodeDecoder) \<times> world) = (Inr this, fresh_world)"
    by (simp add: constructor_eq Map_has_formatMap_init)
  from duplicates_are_kept
         [OF g, where this = "fields_init :: unit ZXingWasmQrcodeDecoder"
            and toString = sample_toString and requestedFormats = "[QR_CODE, EAN_13, QR_CODE]"
            and v = False and l = "()" and ov = None and w = fresh_world
            and adapter = this and w' = fresh_world and translated = "[]" and ?w1.0 = fresh_world]
       c g
  show ?thesis by auto
qed

end
